theory Spec2Isabelle
  imports Main "HOL-Library.Word"
begin

section \<open>Go values\<close>

text \<open>
  \<open>time.Duration\<close> is an \<open>int64\<close> count of nanoseconds and \<open>int\<close> is 64 bits wide on the
  usual platforms: both are 64-bit words, read as signed by \<open>sint\<close>, so \<open>+\<close> and \<open>*\<close> wrap
  around as they do in Go. A \<open>time.Time\<close> is a point on the clock's axis, in nanoseconds.
\<close>

type_synonym Duration = "64 word"
type_synonym go_int = "64 word"
type_synonym Time = int

definition Second :: Duration where
  "Second = 1000000000"

text \<open>
  The \<open>error\<close> values the program can hold: the messages it builds itself with
  \<open>errors.New\<close> and \<open>fmt.Errorf\<close>, the failure of the HTTP round trip, and the two errors
  of \<open>json.Unmarshal\<close> (the second one names the field it could not fill).
\<close>

datatype go_error =
    ErrorString string
  | TransportError string
  | SyntaxError
  | UnmarshalTypeError string

section \<open>Constants of \<open>main.go\<close>\<close>

definition oauthClientId :: string where
  "oauthClientId = ''''"

definition deviceCodeUrl :: string where
  "deviceCodeUrl = ''https://github.com/login/device/code''"

definition accessTokenUrl :: string where
  "accessTokenUrl = ''https://github.com/login/oauth/access_token''"

definition scope :: string where
  "scope = ''''"

definition grantType :: string where
  "grantType = ''urn:ietf:params:oauth:grant-type:device_code''"

section \<open>Response bodies and \<open>json.Unmarshal\<close>\<close>

text \<open>
  A response body is either not a JSON text at all or one JSON value. Object members are
  kept in the order of the text, duplicates included. A number written as an integer
  literal is \<open>JInt\<close>; one with a fraction or an exponent is \<open>JFloat\<close> with its text.
\<close>

datatype json =
    JNull
  | JBool bool
  | JInt int
  | JFloat string
  | JString string
  | JArray "json list"
  | JObject "(string \<times> json) list"

datatype body = NotJSON | JSON json

text \<open>
  The three structs the bodies are decoded into, with the field names of the source.
\<close>

record deviceCodeResponse =
  DeviceCode :: string
  ExpiresIn :: go_int
  Interval :: go_int
  UserCode :: string
  VerificationURI :: string

record accessTokenResponse =
  AccessToken :: string
  TokenType :: string
  Scope :: string

record accessTokenErrorResponse =
  Error :: string
  ErrorDescription :: string
  ErrorUri :: string

text \<open>The value \<open>&T{}\<close> of each struct: every field zero.\<close>

definition newDeviceCodeResponse :: deviceCodeResponse where
  "newDeviceCodeResponse =
     \<lparr>DeviceCode = '''', ExpiresIn = 0, Interval = 0, UserCode = '''', VerificationURI = ''''\<rparr>"

definition newAccessTokenResponse :: accessTokenResponse where
  "newAccessTokenResponse = \<lparr>AccessToken = '''', TokenType = '''', Scope = ''''\<rparr>"

definition newAccessTokenErrorResponse :: accessTokenErrorResponse where
  "newAccessTokenErrorResponse = \<lparr>Error = '''', ErrorDescription = '''', ErrorUri = ''''\<rparr>"

text \<open>
  \<open>json.Unmarshal\<close> is the standard library's. What the program relies on:
  \<^item> a body that is not JSON gives a syntax error and leaves the struct as it was;
  \<^item> \<open>null\<close> at the top leaves the struct as it was, without error; any other value that
    is not an object gives a type error;
  \<^item> the members of an object are handled in order; a member's name selects the field
    whose \<open>json\<close> tag it equals, letter case ignored; a member that selects no field is
    skipped;
  \<^item> a string goes into a string field and an integer literal within \<open>int64\<close> into an
    \<open>int\<close> field; \<open>null\<close> leaves the field as it was; any other value leaves the field as
    it was and is a type error; decoding goes on after a type error, and the first one
    is what \<open>Unmarshal\<close> returns.
\<close>

definition foldChar :: "char \<Rightarrow> char" where
  "foldChar c =
     (case map_of (zip ''abcdefghijklmnopqrstuvwxyz'' ''ABCDEFGHIJKLMNOPQRSTUVWXYZ'') c of
        Some u \<Rightarrow> u
      | None \<Rightarrow> c)"

definition foldName :: "string \<Rightarrow> string" where
  "foldName s = map foldChar s"

fun saveError :: "go_error option \<Rightarrow> go_error \<Rightarrow> go_error option" where
  "saveError None e = Some e"
| "saveError (Some e0) e = Some e0"

fun storeString :: "string \<Rightarrow> json \<Rightarrow> go_error option \<times> string \<Rightarrow> go_error option \<times> string" where
  "storeString field (JString s) (err, old) = (err, s)"
| "storeString field JNull (err, old) = (err, old)"
| "storeString field v (err, old) = (saveError err (UnmarshalTypeError field), old)"

fun storeInt :: "string \<Rightarrow> json \<Rightarrow> go_error option \<times> go_int \<Rightarrow> go_error option \<times> go_int" where
  "storeInt field (JInt n) (err, old) =
     (if - (2 ^ 63) \<le> n \<and> n < 2 ^ 63 then (err, word_of_int n)
      else (saveError err (UnmarshalTypeError field), old))"
| "storeInt field JNull (err, old) = (err, old)"
| "storeInt field v (err, old) = (saveError err (UnmarshalTypeError field), old)"

definition Unmarshal ::
  "(string \<Rightarrow> json \<Rightarrow> go_error option \<times> 'a \<Rightarrow> go_error option \<times> 'a) \<Rightarrow> body \<Rightarrow> 'a \<Rightarrow> go_error option \<times> 'a" where
  "Unmarshal member b res =
     (case b of
        NotJSON \<Rightarrow> (Some SyntaxError, res)
      | JSON (JObject ms) \<Rightarrow> foldl (\<lambda>acc (k, v). member (foldName k) v acc) (None, res) ms
      | JSON JNull \<Rightarrow> (None, res)
      | JSON _ \<Rightarrow> (Some (UnmarshalTypeError ''''), res))"

text \<open>The field tables of the three structs, from their \<open>json\<close> tags.\<close>

definition deviceCodeMember ::
  "string \<Rightarrow> json \<Rightarrow> go_error option \<times> deviceCodeResponse \<Rightarrow> go_error option \<times> deviceCodeResponse" where
  "deviceCodeMember k v acc =
     (case acc of (err, res) \<Rightarrow>
        if k = foldName ''device_code'' then
          (case storeString ''device_code'' v (err, DeviceCode res) of
             (err', s) \<Rightarrow> (err', res\<lparr>DeviceCode := s\<rparr>))
        else if k = foldName ''expires_in'' then
          (case storeInt ''expires_in'' v (err, ExpiresIn res) of
             (err', n) \<Rightarrow> (err', res\<lparr>ExpiresIn := n\<rparr>))
        else if k = foldName ''interval'' then
          (case storeInt ''interval'' v (err, Interval res) of
             (err', n) \<Rightarrow> (err', res\<lparr>Interval := n\<rparr>))
        else if k = foldName ''user_code'' then
          (case storeString ''user_code'' v (err, UserCode res) of
             (err', s) \<Rightarrow> (err', res\<lparr>UserCode := s\<rparr>))
        else if k = foldName ''verification_uri'' then
          (case storeString ''verification_uri'' v (err, VerificationURI res) of
             (err', s) \<Rightarrow> (err', res\<lparr>VerificationURI := s\<rparr>))
        else acc)"

definition accessTokenMember ::
  "string \<Rightarrow> json \<Rightarrow> go_error option \<times> accessTokenResponse \<Rightarrow> go_error option \<times> accessTokenResponse" where
  "accessTokenMember k v acc =
     (case acc of (err, res) \<Rightarrow>
        if k = foldName ''access_token'' then
          (case storeString ''access_token'' v (err, AccessToken res) of
             (err', s) \<Rightarrow> (err', res\<lparr>AccessToken := s\<rparr>))
        else if k = foldName ''token_type'' then
          (case storeString ''token_type'' v (err, TokenType res) of
             (err', s) \<Rightarrow> (err', res\<lparr>TokenType := s\<rparr>))
        else if k = foldName ''scope'' then
          (case storeString ''scope'' v (err, Scope res) of
             (err', s) \<Rightarrow> (err', res\<lparr>Scope := s\<rparr>))
        else acc)"

definition accessTokenErrorMember ::
  "string \<Rightarrow> json \<Rightarrow> go_error option \<times> accessTokenErrorResponse \<Rightarrow> go_error option \<times> accessTokenErrorResponse" where
  "accessTokenErrorMember k v acc =
     (case acc of (err, res) \<Rightarrow>
        if k = foldName ''error'' then
          (case storeString ''error'' v (err, Error res) of
             (err', s) \<Rightarrow> (err', res\<lparr>Error := s\<rparr>))
        else if k = foldName ''error_description'' then
          (case storeString ''error_description'' v (err, ErrorDescription res) of
             (err', s) \<Rightarrow> (err', res\<lparr>ErrorDescription := s\<rparr>))
        else if k = foldName ''error_uri'' then
          (case storeString ''error_uri'' v (err, ErrorUri res) of
             (err', s) \<Rightarrow> (err', res\<lparr>ErrorUri := s\<rparr>))
        else acc)"

section \<open>What the program does to the outside\<close>

text \<open>
  The calls the program makes, in the order it makes them: a sleep with its duration, a
  reading of the clock with the time read, a form POST with its URL and parameters, and a
  line printed.
\<close>

datatype event =
    Sleep Duration
  | Now Time
  | Post string "(string \<times> string) list"
  | Print string

text \<open>
  \<open>post\<close> is the HTTP round trip: the outside answers it with a transport error or with a
  body. The request itself is the event.
\<close>

definition deviceCodeRequest :: event where
  "deviceCodeRequest = Post deviceCodeUrl [(''client_id'', oauthClientId), (''scope'', scope)]"

definition accessTokenRequest :: "string \<Rightarrow> event" where
  "accessTokenRequest dc =
     Post accessTokenUrl
       [(''client_id'', oauthClientId), (''device_code'', dc), (''grant_type'', grantType)]"

section \<open>\<open>postDeviceCode\<close> and \<open>postAccessToken\<close>\<close>

definition postDeviceCode :: "go_error + body \<Rightarrow> deviceCodeResponse option \<times> go_error option" where
  "postDeviceCode reply =
     (case reply of
        Inl err \<Rightarrow> (None, Some err)
      | Inr b \<Rightarrow>
          (case Unmarshal deviceCodeMember b newDeviceCodeResponse of
             (Some err, res) \<Rightarrow> (None, Some err)
           | (None, res) \<Rightarrow> (Some res, None)))"

definition postAccessToken ::
  "go_error + body \<Rightarrow> accessTokenResponse option \<times> accessTokenErrorResponse option \<times> go_error option" where
  "postAccessToken reply =
     (case reply of
        Inl err \<Rightarrow> (None, None, Some err)
      | Inr b \<Rightarrow>
          (case Unmarshal accessTokenMember b newAccessTokenResponse of (err, res) \<Rightarrow>
             if err = None \<and> AccessToken res \<noteq> '''' then (Some res, None, None)
             else
               (case Unmarshal accessTokenErrorMember b newAccessTokenErrorResponse of (err', errRes) \<Rightarrow>
                  if err' = None \<and> Error errRes \<noteq> '''' then (None, Some errRes, None)
                  else (None, None, err'))))"

section \<open>\<open>pollAccessToken\<close>\<close>

text \<open>
  The three parameters of \<open>pollAccessToken\<close> are the variables of its loop. One turn of
  the loop is answered by the outside with a \<open>tick\<close>: what \<open>time.Now()\<close> reads after the
  sleep, and what \<open>post\<close> returns if the turn gets that far.
\<close>

record pollVars =
  deviceCode :: string
  interval :: Duration
  expiresAt :: Time

record tick =
  now :: Time
  response :: "go_error + body"

type_synonym pollResult = "accessTokenResponse option \<times> go_error option"

definition expiredError :: go_error where
  "expiredError = ErrorString ''code is already expired''"

definition authorizationError :: "accessTokenErrorResponse \<Rightarrow> go_error" where
  "authorizationError e =
     ErrorString (Error e @ '' '' @ ErrorDescription e @ '' '' @ ErrorUri e)"

text \<open>
  One turn of the \<open>for\<close> loop: the events of the turn, \<open>Some\<close> of what the function returns
  or \<open>None\<close> for \<open>continue\<close>, and the variables after the turn.
\<close>

definition pollIteration :: "tick \<Rightarrow> pollVars \<Rightarrow> event list \<times> pollResult option \<times> pollVars" where
  "pollIteration w v =
     (if now w > expiresAt v then
        ([Sleep (interval v), Now (now w)], Some (None, Some expiredError), v)
      else
        (case postAccessToken (response w) of (acResp, acErrResp, err) \<Rightarrow>
           let evs = [Sleep (interval v), Now (now w), accessTokenRequest (deviceCode v)] in
           (case err of
              Some e \<Rightarrow> (evs, Some (None, Some e), v)
            | None \<Rightarrow>
                (case acErrResp of
                   Some e \<Rightarrow>
                     if Error e = ''authorization_pending'' then (evs, None, v)
                     else if Error e = ''slow_down'' then (evs, None, v\<lparr>interval := interval v * 2\<rparr>)
                     else if Error e \<noteq> '''' then (evs, Some (None, Some (authorizationError e)), v)
                     else (evs, Some (acResp, None), v)
                 | None \<Rightarrow> (evs, Some (acResp, None), v)))))"

text \<open>
  The loop has no bound of its own: it runs as long as the outside keeps answering
  \<open>authorization_pending\<close> or \<open>slow_down\<close> before the deadline. It is run here against a
  finite list of ticks; \<open>None\<close> as result says that the list ended with the loop still
  going.
\<close>

fun pollLoop :: "tick list \<Rightarrow> pollVars \<Rightarrow> event list \<times> pollResult option \<times> pollVars" where
  "pollLoop [] v = ([], None, v)"
| "pollLoop (w # ws) v =
     (case pollIteration w v of
        (evs, Some r, v') \<Rightarrow> (evs, Some r, v')
      | (evs, None, v') \<Rightarrow>
          (case pollLoop ws v' of (evs', r, v'') \<Rightarrow> (evs @ evs', r, v'')))"

definition pollAccessToken ::
  "tick list \<Rightarrow> string \<Rightarrow> Duration \<Rightarrow> Time \<Rightarrow> event list \<times> pollResult option \<times> pollVars" where
  "pollAccessToken ws dc i e = pollLoop ws \<lparr>deviceCode = dc, interval = i, expiresAt = e\<rparr>"

section \<open>\<open>run\<close>\<close>

text \<open>
  What the outside answers to one execution of \<open>run\<close>: the reading of the clock at its
  first statement, the reply to the device-code request, and the ticks of the polling.
\<close>

record world =
  startTime :: Time
  deviceCodeReply :: "go_error + body"
  ticks :: "tick list"

text \<open>
  \<open>run\<close> returns an \<open>error\<close> (\<open>None\<close> for \<open>nil\<close>), or panics where it reads
  \<open>acResp.AccessToken\<close> through a nil pointer.
\<close>

datatype runResult = Returned "go_error option" | NilPointerDereference

text \<open>The arguments of the call of \<open>pollAccessToken\<close> in step 3.\<close>

definition pollArguments :: "Time \<Rightarrow> deviceCodeResponse \<Rightarrow> string \<times> Duration \<times> Time" where
  "pollArguments deviceCodeRequestTime dcResp =
     (DeviceCode dcResp,
      (Interval dcResp + 1) * Second,
      deviceCodeRequestTime + sint (ExpiresIn dcResp * Second))"

definition run :: "world \<Rightarrow> event list \<times> runResult option" where
  "run w =
     (case postDeviceCode (deviceCodeReply w) of
        (_, Some err) \<Rightarrow> ([Now (startTime w), deviceCodeRequest], Some (Returned (Some err)))
      | (None, None) \<Rightarrow> ([Now (startTime w), deviceCodeRequest], Some NilPointerDereference)
      | (Some dcResp, None) \<Rightarrow>
          (let prompt =
                 [Print (''Open '' @ VerificationURI dcResp @ '' in your browser and enter this code:''),
                  Print (UserCode dcResp)]
           in case pollArguments (startTime w) dcResp of (dc, i, e) \<Rightarrow>
             (case pollAccessToken (ticks w) dc i e of
                (evs, None, _) \<Rightarrow> (Now (startTime w) # deviceCodeRequest # prompt @ evs, None)
              | (evs, Some (_, Some err), _) \<Rightarrow>
                  (Now (startTime w) # deviceCodeRequest # prompt @ evs, Some (Returned (Some err)))
              | (evs, Some (None, None), _) \<Rightarrow>
                  (Now (startTime w) # deviceCodeRequest # prompt @ evs, Some NilPointerDereference)
              | (evs, Some (Some acResp, None), _) \<Rightarrow>
                  (Now (startTime w) # deviceCodeRequest # prompt @ evs
                     @ [Print (''access token: '' @ AccessToken acResp)],
                   Some (Returned None)))))"

section \<open>Properties of event sequences and of replies\<close>

text \<open>
  \<open>requestsGuarded e evs\<close>: every POST in \<open>evs\<close> comes directly after a reading of the
  clock, and that reading is not after the deadline \<open>e\<close>.
\<close>

fun requestsGuarded :: "Time \<Rightarrow> event list \<Rightarrow> bool" where
  "requestsGuarded e [] = True"
| "requestsGuarded e (Now t # Post u ps # es) = (\<not> t > e \<and> requestsGuarded e es)"
| "requestsGuarded e (Post u ps # es) = False"
| "requestsGuarded e (ev # es) = requestsGuarded e es"

text \<open>
  \<open>sleepsFirst evs\<close>: \<open>evs\<close> is a sequence of turns, each one a sleep, then a reading of
  the clock, then at most one POST.
\<close>

fun sleepsFirst :: "event list \<Rightarrow> bool" where
  "sleepsFirst [] = True"
| "sleepsFirst (Sleep d # Now t # Post u ps # es) = sleepsFirst es"
| "sleepsFirst (Sleep d # Now t # es) = sleepsFirst es"
| "sleepsFirst es = False"

text \<open>
  A reply that \<open>postAccessToken\<close> hands to the loop as an error response with the code
  \<open>authorization_pending\<close>, and one with the code \<open>slow_down\<close>.
\<close>

definition isAuthorizationPending :: "go_error + body \<Rightarrow> bool" where
  "isAuthorizationPending reply =
     (case postAccessToken reply of
        (_, Some e, None) \<Rightarrow> Error e = ''authorization_pending''
      | _ \<Rightarrow> False)"

definition isSlowDown :: "go_error + body \<Rightarrow> bool" where
  "isSlowDown reply =
     (case postAccessToken reply of
        (_, Some e, None) \<Rightarrow> Error e = ''slow_down''
      | _ \<Rightarrow> False)"

fun isPost :: "event \<Rightarrow> bool" where
  "isPost (Post u ps) = True"
| "isPost ev = False"

definition tokenRequests :: "event list \<Rightarrow> nat" where
  "tokenRequests evs = length (filter isPost evs)"





section \<open>Concrete replies\<close>

definition replyTick :: "Time \<Rightarrow> body \<Rightarrow> tick" where
  "replyTick t b = \<lparr>now = t, response = Inr b\<rparr>"

definition pendingBody :: body where
  "pendingBody = JSON (JObject [(''error'', JString ''authorization_pending'')])"

definition slowDownBody :: body where
  "slowDownBody = JSON (JObject [(''error'', JString ''slow_down'')])"

definition tokenBody :: body where
  "tokenBody =
     JSON (JObject [(''access_token'', JString ''tok123''), (''token_type'', JString ''bearer''),
                    (''scope'', JString '''')])"

definition expiredTokenBody :: body where
  "expiredTokenBody =
     JSON (JObject [(''error'', JString ''expired_token''),
                    (''error_description'', JString ''The device code has expired.''),
                    (''error_uri'', JString ''https://docs.github.com'')])"

definition tokenWithErrorBody :: body where
  "tokenWithErrorBody =
     JSON (JObject [(''access_token'', JString ''tok123''), (''token_type'', JString ''bearer''),
                    (''scope'', JString ''''), (''error'', JString ''access_denied''),
                    (''error_description'', JString ''The user has denied the request.''),
                    (''error_uri'', JString ''https://docs.github.com'')])"

text \<open>
  The device-code response and the three polls of the end-to-end scenario: an interval of
  5 seconds, 900 seconds to expiry, two \<open>authorization_pending\<close> and then the token.
\<close>

definition scenarioWorld :: world where
  "scenarioWorld =
     \<lparr>startTime = 0,
      deviceCodeReply = Inr (JSON (JObject
        [(''device_code'', JString ''D''), (''user_code'', JString ''ABCD-1234''),
         (''verification_uri'', JString ''https://x/device''),
         (''expires_in'', JInt 900), (''interval'', JInt 5)])),
      ticks = [replyTick 6000000000 pendingBody, replyTick 12000000000 pendingBody,
               replyTick 18000000000 tokenBody]\<rparr>"

text \<open>The same grant, but with a lifetime of 9223372037 seconds.\<close>

definition longLivedGrantWorld :: world where
  "longLivedGrantWorld =
     \<lparr>startTime = 0,
      deviceCodeReply = Inr (JSON (JObject
        [(''device_code'', JString ''D''), (''user_code'', JString ''ABCD-1234''),
         (''verification_uri'', JString ''https://x/device''),
         (''expires_in'', JInt 9223372037), (''interval'', JInt 5)])),
      ticks = [replyTick 6000000000 tokenBody]\<rparr>"

text \<open>The same grant, and a first poll answered with the empty JSON object.\<close>

definition emptyObjectWorld :: world where
  "emptyObjectWorld =
     \<lparr>startTime = 0,
      deviceCodeReply = Inr (JSON (JObject
        [(''device_code'', JString ''D''), (''user_code'', JString ''ABCD-1234''),
         (''verification_uri'', JString ''https://x/device''),
         (''expires_in'', JInt 900), (''interval'', JInt 5)])),
      ticks = [replyTick 6000000000 (JSON (JObject []))]\<rparr>"

section \<open>Unfolding the program on concrete input\<close>

text \<open>The folded names of the members that occur below.\<close>

lemma foldName_tags:
  "foldName ''access_token'' = ''ACCESS_TOKEN''"
  "foldName ''token_type'' = ''TOKEN_TYPE''"
  "foldName ''scope'' = ''SCOPE''"
  "foldName ''error'' = ''ERROR''"
  "foldName ''error_description'' = ''ERROR_DESCRIPTION''"
  "foldName ''error_uri'' = ''ERROR_URI''"
  "foldName ''device_code'' = ''DEVICE_CODE''"
  "foldName ''expires_in'' = ''EXPIRES_IN''"
  "foldName ''Expires_In'' = ''EXPIRES_IN''"
  "foldName ''interval'' = ''INTERVAL''"
  "foldName ''user_code'' = ''USER_CODE''"
  "foldName ''verification_uri'' = ''VERIFICATION_URI''"
  by (simp_all add: foldName_def foldChar_def)

lemmas eval_defs =
  pollAccessToken_def pollIteration_def postAccessToken_def Unmarshal_def
  accessTokenMember_def accessTokenErrorMember_def foldName_tags
  newAccessTokenResponse_def newAccessTokenErrorResponse_def accessTokenRequest_def
  expiredError_def authorizationError_def Second_def
  pendingBody_def slowDownBody_def tokenBody_def expiredTokenBody_def tokenWithErrorBody_def

lemmas class_defs = isAuthorizationPending_def isSlowDown_def

lemmas run_defs =
  run_def postDeviceCode_def deviceCodeMember_def newDeviceCodeResponse_def pollArguments_def
  deviceCodeRequest_def longLivedGrantWorld_def scenarioWorld_def replyTick_def

section \<open>One turn of the loop\<close>

lemma pollIteration_expired:
  "now w > expiresAt v \<Longrightarrow>
   pollIteration w v = ([Sleep (interval v), Now (now w)], Some (None, Some expiredError), v)"
  by (simp add: pollIteration_def)

lemma pollIteration_cases:
  assumes "pollIteration w v = (evs, r, v')"
  shows "(now w > expiresAt v \<and> evs = [Sleep (interval v), Now (now w)] \<and> r \<noteq> None \<and> v' = v)
       \<or> (\<not> now w > expiresAt v
          \<and> evs = [Sleep (interval v), Now (now w), accessTokenRequest (deviceCode v)]
          \<and> (v' = v \<or> r = None \<and> v' = v\<lparr>interval := interval v * 2\<rparr>))"
  using assms
  by (auto simp: pollIteration_def Let_def split: if_splits prod.splits option.splits)

lemma pollIteration_pending:
  "\<not> now w > expiresAt v \<Longrightarrow> isAuthorizationPending (response w) \<Longrightarrow>
   pollIteration w v =
     ([Sleep (interval v), Now (now w), accessTokenRequest (deviceCode v)], None, v)"
  by (auto simp: pollIteration_def isAuthorizationPending_def split: prod.splits option.splits)

lemma pollIteration_slow_down:
  "\<not> now w > expiresAt v \<Longrightarrow> isSlowDown (response w) \<Longrightarrow>
   pollIteration w v =
     ([Sleep (interval v), Now (now w), accessTokenRequest (deviceCode v)], None,
      v\<lparr>interval := interval v * 2\<rparr>)"
  by (auto simp: pollIteration_def isSlowDown_def split: prod.splits option.splits)

lemma pollIteration_success:
  "\<not> now w > expiresAt v \<Longrightarrow> postAccessToken (response w) = (Some r, None, None) \<Longrightarrow>
   pollIteration w v =
     ([Sleep (interval v), Now (now w), accessTokenRequest (deviceCode v)], Some (Some r, None), v)"
  by (simp add: pollIteration_def)

lemma pollIteration_other_error:
  "\<not> now w > expiresAt v \<Longrightarrow> postAccessToken (response w) = (a, Some er, None) \<Longrightarrow>
   Error er \<noteq> ''authorization_pending'' \<Longrightarrow> Error er \<noteq> ''slow_down'' \<Longrightarrow> Error er \<noteq> '''' \<Longrightarrow>
   pollIteration w v =
     ([Sleep (interval v), Now (now w), accessTokenRequest (deviceCode v)],
      Some (None, Some (authorizationError er)), v)"
  by (simp add: pollIteration_def)

section \<open>The loop\<close>

lemma pollLoop_append:
  "pollLoop (xs @ ys) v =
     (case pollLoop xs v of
        (evs, Some r, v') \<Rightarrow> (evs, Some r, v')
      | (evs, None, v') \<Rightarrow> (case pollLoop ys v' of (evs', r, v'') \<Rightarrow> (evs @ evs', r, v'')))"
  by (induction xs arbitrary: v) (auto split: prod.splits option.splits)

lemma pollLoop_continue:
  "pollLoop xs v = (evs, None, v') \<Longrightarrow>
   pollLoop (xs @ ys) v = (case pollLoop ys v' of (evs', r, v'') \<Rightarrow> (evs @ evs', r, v''))"
  by (simp add: pollLoop_append)

lemma pollLoop_return:
  "pollLoop pre v = (evs, None, v') \<Longrightarrow> pollIteration w v' = (evs', Some r, v'') \<Longrightarrow>
   pollLoop (pre @ w # rest) v = (evs @ evs', Some r, v'')"
  by (simp add: pollLoop_append)

lemma pollLoop_expiresAt:
  "pollLoop ws v = (evs, r, v') \<Longrightarrow> expiresAt v' = expiresAt v \<and> deviceCode v' = deviceCode v"
proof (induction ws arbitrary: v evs r v')
  case Nil
  then show ?case by simp
next
  case (Cons w ws)
  obtain evs1 r1 v1 where it: "pollIteration w v = (evs1, r1, v1)"
    by (cases "pollIteration w v") auto
  from pollIteration_cases [OF it] have same: "expiresAt v1 = expiresAt v \<and> deviceCode v1 = deviceCode v"
    by auto
  show ?case
  proof (cases r1)
    case None
    obtain evs2 r2 v2 where rest: "pollLoop ws v1 = (evs2, r2, v2)"
      by (cases "pollLoop ws v1") auto
    from Cons.prems it None rest have "v' = v2" by simp
    with Cons.IH [OF rest] same show ?thesis by simp
  next
    case (Some a)
    with Cons.prems it have "v' = v1" by simp
    with same show ?thesis by simp
  qed
qed

lemma pollLoop_guarded: "requestsGuarded (expiresAt v) (fst (pollLoop ws v))"
proof (induction ws arbitrary: v)
  case Nil
  then show ?case by simp
next
  case (Cons w ws)
  obtain evs1 r1 v1 where it: "pollIteration w v = (evs1, r1, v1)"
    by (cases "pollIteration w v") auto
  note c = pollIteration_cases [OF it]
  show ?case
  proof (cases r1)
    case None
    with c have evs1: "evs1 = [Sleep (interval v), Now (now w), accessTokenRequest (deviceCode v)]"
      and le: "\<not> now w > expiresAt v" and e1: "expiresAt v1 = expiresAt v"
      by auto
    obtain evs2 r2 v2 where rest: "pollLoop ws v1 = (evs2, r2, v2)"
      by (cases "pollLoop ws v1") auto
    from Cons.IH [of v1] e1 rest have "requestsGuarded (expiresAt v) evs2" by simp
    with it None evs1 le rest show ?thesis
      by (simp add: accessTokenRequest_def)
  next
    case (Some a)
    with it c show ?thesis by (auto simp: accessTokenRequest_def)
  qed
qed

lemma pollLoop_sleepsFirst: "sleepsFirst (fst (pollLoop ws v))"
proof (induction ws arbitrary: v)
  case Nil
  then show ?case by simp
next
  case (Cons w ws)
  obtain evs1 r1 v1 where it: "pollIteration w v = (evs1, r1, v1)"
    by (cases "pollIteration w v") auto
  note c = pollIteration_cases [OF it]
  show ?case
  proof (cases r1)
    case None
    with c have evs1: "evs1 = [Sleep (interval v), Now (now w), accessTokenRequest (deviceCode v)]"
      by auto
    obtain evs2 r2 v2 where rest: "pollLoop ws v1 = (evs2, r2, v2)"
      by (cases "pollLoop ws v1") auto
    from Cons.IH [of v1] rest have "sleepsFirst evs2" by simp
    with it None evs1 rest show ?thesis
      by (simp add: accessTokenRequest_def)
  next
    case (Some a)
    with it c show ?thesis by (auto simp: accessTokenRequest_def)
  qed
qed

lemma pollLoop_pending:
  "\<forall>w\<in>set ps. \<not> now w > expiresAt v \<and> isAuthorizationPending (response w) \<Longrightarrow>
   pollLoop ps v =
     (concat (map (\<lambda>w. [Sleep (interval v), Now (now w), accessTokenRequest (deviceCode v)]) ps),
      None, v)"
  by (induction ps) (simp_all add: pollIteration_pending)

lemma tokenRequests_turns:
  "tokenRequests (concat (map (\<lambda>w. [Sleep d, Now (f w), accessTokenRequest c]) ws)) = length ws"
  by (induction ws) (simp_all add: tokenRequests_def accessTokenRequest_def)

lemma pollLoop_slow_down:
  "\<forall>w\<in>set ss. \<not> now w > e \<and> isSlowDown (response w) \<Longrightarrow>
   pollLoop ss \<lparr>deviceCode = dc, interval = i * 2 ^ n, expiresAt = e\<rparr> =
     (concat (map (\<lambda>(j, w). [Sleep (i * 2 ^ j), Now (now w), accessTokenRequest dc]) (enumerate n ss)),
      None,
      \<lparr>deviceCode = dc, interval = i * 2 ^ (n + length ss), expiresAt = e\<rparr>)"
proof (induction ss arbitrary: n)
  case Nil
  then show ?case by simp
next
  case (Cons w ss)
  let ?v = "\<lparr>deviceCode = dc, interval = i * 2 ^ n, expiresAt = e\<rparr>"
  from Cons.prems have "pollIteration w ?v =
      ([Sleep (i * 2 ^ n), Now (now w), accessTokenRequest dc], None,
       \<lparr>deviceCode = dc, interval = i * 2 ^ Suc n, expiresAt = e\<rparr>)"
    using pollIteration_slow_down [where w = w and v = ?v] by (simp add: mult.assoc)
  moreover from Cons.prems have "\<forall>w\<in>set ss. \<not> now w > e \<and> isSlowDown (response w)"
    by simp
  note Cons.IH [OF this, of "Suc n"]
  ultimately show ?case by simp
qed


section \<open>Signed 64-bit arithmetic\<close>

lemma sint_times_exact:
  fixes i :: "64 word"
  assumes "- (2 ^ 63) \<le> sint i * m" "sint i * m < 2 ^ 63"
  shows "sint (i * word_of_int m) = sint i * m"
proof -
  have "i * word_of_int m = word_of_int (sint i * m)"
    by simp
  then have "sint (i * word_of_int m) = signed_take_bit 63 (sint i * m)"
    by (simp only: sint_sbintrunc') simp
  with assms show ?thesis
    by (simp add: signed_take_bit_int_eq_self)
qed

lemma sint_plus_exact:
  fixes i :: "64 word"
  assumes "- (2 ^ 63) \<le> sint i + m" "sint i + m < 2 ^ 63"
  shows "sint (i + word_of_int m) = sint i + m"
proof -
  have "i + word_of_int m = word_of_int (sint i + m)"
    by simp
  then have "sint (i + word_of_int m) = signed_take_bit 63 (sint i + m)"
    by (simp only: sint_sbintrunc') simp
  with assms show ?thesis
    by (simp add: signed_take_bit_int_eq_self)
qed

lemma sint_double_pow:
  fixes i :: "64 word"
  assumes "- (2 ^ 63) \<le> sint i * 2 ^ k" "sint i * 2 ^ k < 2 ^ 63"
  shows "sint (i * 2 ^ k) = sint i * 2 ^ k"
  using sint_times_exact [of i "2 ^ k"] assms by simp


section \<open>Decoding a device-code response\<close>





section \<open>The deadline\<close>

text \<open>
  C1. In every run of \<open>pollAccessToken\<close>, each token request comes directly after a reading
  of the clock that is not after \<open>expiresAt\<close>: the deadline is checked in every turn of the
  loop, right before the request. And in whatever turn the clock reads a time after
  \<open>expiresAt\<close>, the function returns the expiry error with a sleep and the reading as the
  only events of that turn: no further request is sent.
\<close>

theorem request_only_before_deadline:
  "requestsGuarded e (fst (pollAccessToken ws dc i e))
   \<and> (\<forall>pre w rest evs v.
         pollAccessToken pre dc i e = (evs, None, v) \<and> now w > e \<longrightarrow>
         pollAccessToken (pre @ w # rest) dc i e =
           (evs @ [Sleep (interval v), Now (now w)], Some (None, Some expiredError), v))"
proof (intro conjI allI impI)
  show "requestsGuarded e (fst (pollAccessToken ws dc i e))"
    using pollLoop_guarded [of "\<lparr>deviceCode = dc, interval = i, expiresAt = e\<rparr>" ws]
    by (simp add: pollAccessToken_def)
next
  fix pre rest evs v and w :: tick
  assume h: "pollAccessToken pre dc i e = (evs, None, v) \<and> now w > e"
  then have run: "pollLoop pre \<lparr>deviceCode = dc, interval = i, expiresAt = e\<rparr> = (evs, None, v)"
    by (simp add: pollAccessToken_def)
  from pollLoop_expiresAt [OF run] have "expiresAt v = e" by simp
  with h have "pollIteration w v = ([Sleep (interval v), Now (now w)], Some (None, Some expiredError), v)"
    by (simp add: pollIteration_expired)
  from pollLoop_return [OF run this]
  show "pollAccessToken (pre @ w # rest) dc i e =
          (evs @ [Sleep (interval v), Now (now w)], Some (None, Some expiredError), v)"
    by (simp add: pollAccessToken_def)
qed

text \<open>
  C1 at a concrete run: the first poll, 6 seconds in, is answered \<open>authorization_pending\<close>;
  at the second turn the clock reads 24 seconds, past the deadline of 20 seconds.
\<close>

theorem request_only_before_deadline_witness:
  "requestsGuarded 20000000000
     (fst (pollAccessToken
        [\<lparr>now = 6000000000, response = Inr pendingBody\<rparr>,
         \<lparr>now = 24000000000, response = Inr tokenBody\<rparr>] ''D'' (6 * Second) 20000000000))
   \<and> pollAccessToken [\<lparr>now = 6000000000, response = Inr pendingBody\<rparr>] ''D'' (6 * Second) 20000000000
       = ([Sleep 6000000000, Now 6000000000, accessTokenRequest ''D''], None,
          \<lparr>deviceCode = ''D'', interval = 6000000000, expiresAt = 20000000000\<rparr>)
   \<and> now \<lparr>now = 24000000000, response = Inr tokenBody\<rparr> > 20000000000
   \<and> pollAccessToken
        ([\<lparr>now = 6000000000, response = Inr pendingBody\<rparr>]
           @ \<lparr>now = 24000000000, response = Inr tokenBody\<rparr> # [])
        ''D'' (6 * Second) 20000000000
       = ([Sleep 6000000000, Now 6000000000, accessTokenRequest ''D'']
            @ [Sleep 6000000000, Now 24000000000],
          Some (None, Some expiredError),
          \<lparr>deviceCode = ''D'', interval = 6000000000, expiresAt = 20000000000\<rparr>)"
proof -
  let ?p = "\<lparr>now = 6000000000, response = Inr pendingBody\<rparr>"
  let ?late = "\<lparr>now = 24000000000, response = Inr tokenBody\<rparr>"
  let ?v = "\<lparr>deviceCode = ''D'', interval = 6000000000, expiresAt = 20000000000\<rparr>"
  note main = request_only_before_deadline [of 20000000000 "[?p, ?late]" "''D''" "6 * Second"]
  have h: "pollAccessToken [?p] ''D'' (6 * Second) 20000000000
             = ([Sleep 6000000000, Now 6000000000, accessTokenRequest ''D''], None, ?v)
           \<and> now ?late > 20000000000"
    by (simp add: eval_defs)
  from main have g: "requestsGuarded 20000000000
                      (fst (pollAccessToken [?p, ?late] ''D'' (6 * Second) 20000000000))"
    by (rule conjunct1)
  from main have "\<forall>pre w rest evs v.
         pollAccessToken pre ''D'' (6 * Second) 20000000000 = (evs, None, v) \<and> now w > 20000000000 \<longrightarrow>
         pollAccessToken (pre @ w # rest) ''D'' (6 * Second) 20000000000 =
           (evs @ [Sleep (interval v), Now (now w)], Some (None, Some expiredError), v)"
    by (rule conjunct2)
  with h have "pollAccessToken ([?p] @ ?late # []) ''D'' (6 * Second) 20000000000
       = ([Sleep 6000000000, Now 6000000000, accessTokenRequest ''D'']
            @ [Sleep (interval ?v), Now (now ?late)], Some (None, Some expiredError), ?v)"
    by blast
  with g h show ?thesis by simp
qed

text \<open>
  C10. The events of every run are turns of the shape sleep, clock reading, request: the
  sleep comes first in every turn, the first one included. Called with a deadline that
  has already passed, the function still sleeps for the interval before it reads the
  clock and returns the expiry error. And a turn that follows any number of turns sleeps
  for the interval as it stands then, before the clock is read.
\<close>

theorem sleep_precedes_deadline_check:
  "sleepsFirst (fst (pollAccessToken ws dc i e))
   \<and> (\<forall>w rest. now w > e \<longrightarrow>
         pollAccessToken (w # rest) dc i e =
           ([Sleep i, Now (now w)], Some (None, Some expiredError),
            \<lparr>deviceCode = dc, interval = i, expiresAt = e\<rparr>))
   \<and> (\<forall>pre w rest evs v.
         pollAccessToken pre dc i e = (evs, None, v) \<longrightarrow>
         (\<exists>evs'. fst (pollAccessToken (pre @ w # rest) dc i e)
                  = evs @ Sleep (interval v) # Now (now w) # evs'))"
proof (intro conjI allI impI)
  show "sleepsFirst (fst (pollAccessToken ws dc i e))"
    by (simp add: pollAccessToken_def pollLoop_sleepsFirst)
next
  fix rest and w :: tick
  assume "now w > e"
  then show "pollAccessToken (w # rest) dc i e =
           ([Sleep i, Now (now w)], Some (None, Some expiredError),
            \<lparr>deviceCode = dc, interval = i, expiresAt = e\<rparr>)"
    by (simp add: pollAccessToken_def pollIteration_expired)
next
  fix pre rest evs v and w :: tick
  assume "pollAccessToken pre dc i e = (evs, None, v)"
  then have run: "pollLoop pre \<lparr>deviceCode = dc, interval = i, expiresAt = e\<rparr> = (evs, None, v)"
    by (simp add: pollAccessToken_def)
  obtain evs1 r1 v1 where it: "pollIteration w v = (evs1, r1, v1)"
    by (cases "pollIteration w v") auto
  from pollIteration_cases [OF it]
  obtain tl where evs1: "evs1 = Sleep (interval v) # Now (now w) # tl"
    by auto
  obtain evs2 r2 v2 where rest: "pollLoop (w # rest) v = (evs2, r2, v2)"
    by (cases "pollLoop (w # rest) v") auto
  with it evs1 obtain tl' where "evs2 = Sleep (interval v) # Now (now w) # tl'"
    by (auto split: option.splits prod.splits)
  with pollLoop_continue [OF run, of "w # rest"] rest
  show "\<exists>evs'. fst (pollAccessToken (pre @ w # rest) dc i e)
                  = evs @ Sleep (interval v) # Now (now w) # evs'"
    by (simp add: pollAccessToken_def)
qed

text \<open>C10 at a deadline of 5 seconds and a first reading of the clock at 6 seconds.\<close>

theorem sleep_precedes_deadline_check_witness:
  "sleepsFirst (fst (pollAccessToken [replyTick 6000000000 pendingBody, replyTick 12000000000 tokenBody]
                       ''D'' (6 * Second) 5000000000))
   \<and> now (replyTick 6000000000 pendingBody) > 5000000000
   \<and> pollAccessToken (replyTick 6000000000 pendingBody # [replyTick 12000000000 tokenBody])
        ''D'' (6 * Second) 5000000000
       = ([Sleep (6 * Second), Now 6000000000], Some (None, Some expiredError),
          \<lparr>deviceCode = ''D'', interval = 6 * Second, expiresAt = 5000000000\<rparr>)
   \<and> pollAccessToken [] ''D'' (6 * Second) 5000000000
       = ([], None, \<lparr>deviceCode = ''D'', interval = 6 * Second, expiresAt = 5000000000\<rparr>)
   \<and> (\<exists>evs'. fst (pollAccessToken ([] @ replyTick 6000000000 pendingBody # [])
                      ''D'' (6 * Second) 5000000000)
              = [] @ Sleep (6 * Second) # Now 6000000000 # evs')"
proof -
  let ?p = "replyTick 6000000000 pendingBody"
  let ?t = "replyTick 12000000000 tokenBody"
  let ?v = "\<lparr>deviceCode = ''D'', interval = 6 * Second, expiresAt = 5000000000\<rparr>"
  note main = sleep_precedes_deadline_check [of "[?p, ?t]" "''D''" "6 * Second" 5000000000]
  have late: "now ?p > 5000000000"
    by (simp add: replyTick_def)
  have start: "pollAccessToken [] ''D'' (6 * Second) 5000000000 = ([], None, ?v)"
    by (simp add: pollAccessToken_def)
  from main have a: "sleepsFirst (fst (pollAccessToken [?p, ?t] ''D'' (6 * Second) 5000000000))"
    by (rule conjunct1)
  from main late have b: "pollAccessToken (?p # [?t]) ''D'' (6 * Second) 5000000000
       = ([Sleep (6 * Second), Now (now ?p)], Some (None, Some expiredError), ?v)"
    by blast
  from main start have c: "\<exists>evs'. fst (pollAccessToken ([] @ ?p # []) ''D'' (6 * Second) 5000000000)
              = [] @ Sleep (interval ?v) # Now (now ?p) # evs'"
    by blast
  from a b c late start show ?thesis
    by (simp add: replyTick_def)
qed

section \<open>Classification of responses\<close>

text \<open>
  C3. When \<open>n\<close> replies \<open>authorization_pending\<close> are followed by a success reply, all before
  the deadline, the loop goes on after every \<open>authorization_pending\<close> with the variables
  unchanged, every sleep lasts the interval the function was called with, exactly
  \<open>n + 1\<close> requests are sent, and the function returns the success payload.
\<close>

theorem pending_then_success:
  assumes "\<forall>w\<in>set ps. \<not> now w > e \<and> isAuthorizationPending (response w)"
    and "\<not> now s > e"
    and "postAccessToken (response s) = (Some r, None, None)"
  shows "pollAccessToken ps dc i e =
           (concat (map (\<lambda>w. [Sleep i, Now (now w), accessTokenRequest dc]) ps), None,
            \<lparr>deviceCode = dc, interval = i, expiresAt = e\<rparr>)
       \<and> pollAccessToken (ps @ s # rest) dc i e =
           (concat (map (\<lambda>w. [Sleep i, Now (now w), accessTokenRequest dc]) (ps @ [s])),
            Some (Some r, None),
            \<lparr>deviceCode = dc, interval = i, expiresAt = e\<rparr>)
       \<and> tokenRequests (fst (pollAccessToken (ps @ s # rest) dc i e)) = length ps + 1"
proof -
  let ?v = "\<lparr>deviceCode = dc, interval = i, expiresAt = e\<rparr>"
  let ?turn = "\<lambda>w. [Sleep i, Now (now w), accessTokenRequest dc]"
  from assms(1) have wait: "pollLoop ps ?v = (concat (map ?turn ps), None, ?v)"
    using pollLoop_pending [of ps ?v] by simp
  from assms(2,3) have "pollIteration s ?v = (?turn s, Some (Some r, None), ?v)"
    using pollIteration_success [where w = s and v = ?v and r = r] by simp
  from pollLoop_return [OF wait this]
  have fin: "pollLoop (ps @ s # rest) ?v = (concat (map ?turn (ps @ [s])), Some (Some r, None), ?v)"
    by simp
  have "tokenRequests (concat (map ?turn (ps @ [s]))) = length ps + 1"
    using tokenRequests_turns [of i now dc "ps @ [s]"] by simp
  with wait fin show ?thesis
    by (simp add: pollAccessToken_def)
qed

text \<open>C3 at the polls of the end-to-end scenario: two pending replies, then the token.\<close>

theorem pending_then_success_witness:
  "\<not> now (replyTick 6000000000 pendingBody) > 900000000000
   \<and> isAuthorizationPending (response (replyTick 6000000000 pendingBody))
   \<and> \<not> now (replyTick 12000000000 pendingBody) > 900000000000
   \<and> isAuthorizationPending (response (replyTick 12000000000 pendingBody))
   \<and> \<not> now (replyTick 18000000000 tokenBody) > 900000000000
   \<and> postAccessToken (response (replyTick 18000000000 tokenBody))
       = (Some \<lparr>AccessToken = ''tok123'', TokenType = ''bearer'', Scope = ''''\<rparr>, None, None)
   \<and> pollAccessToken
        ([replyTick 6000000000 pendingBody, replyTick 12000000000 pendingBody]
           @ replyTick 18000000000 tokenBody # [])
        ''D'' 6000000000 900000000000
       = ([Sleep 6000000000, Now 6000000000, accessTokenRequest ''D'',
           Sleep 6000000000, Now 12000000000, accessTokenRequest ''D'',
           Sleep 6000000000, Now 18000000000, accessTokenRequest ''D''],
          Some (Some \<lparr>AccessToken = ''tok123'', TokenType = ''bearer'', Scope = ''''\<rparr>, None),
          \<lparr>deviceCode = ''D'', interval = 6000000000, expiresAt = 900000000000\<rparr>)
   \<and> tokenRequests (fst (pollAccessToken
        ([replyTick 6000000000 pendingBody, replyTick 12000000000 pendingBody]
           @ replyTick 18000000000 tokenBody # [])
        ''D'' 6000000000 900000000000)) = 2 + 1"
proof -
  let ?ps = "[replyTick 6000000000 pendingBody, replyTick 12000000000 pendingBody]"
  let ?s = "replyTick 18000000000 tokenBody"
  let ?r = "\<lparr>AccessToken = ''tok123'', TokenType = ''bearer'', Scope = ''''\<rparr>"
  have h1: "\<forall>w\<in>set ?ps. \<not> now w > 900000000000 \<and> isAuthorizationPending (response w)"
    by (simp add: eval_defs class_defs replyTick_def)
  have h2: "\<not> now ?s > 900000000000"
    by (simp add: replyTick_def)
  have h3: "postAccessToken (response ?s) = (Some ?r, None, None)"
    by (simp add: eval_defs replyTick_def)
  note main = pending_then_success [OF h1 h2 h3, of "''D''" 6000000000 "[]"]
  from main have a: "pollAccessToken (?ps @ ?s # []) ''D'' 6000000000 900000000000
       = ([Sleep 6000000000, Now 6000000000, accessTokenRequest ''D'',
           Sleep 6000000000, Now 12000000000, accessTokenRequest ''D'',
           Sleep 6000000000, Now 18000000000, accessTokenRequest ''D''],
          Some (Some ?r, None),
          \<lparr>deviceCode = ''D'', interval = 6000000000, expiresAt = 900000000000\<rparr>)"
    by (simp add: replyTick_def)
  from main have b: "tokenRequests (fst (pollAccessToken (?ps @ ?s # []) ''D'' 6000000000 900000000000))
                     = length ?ps + 1"
    by (rule conjunct2 [THEN conjunct2])
  from h1 h2 h3 a b show ?thesis
    by simp
qed

text \<open>
  C5. After any turns that left the loop running, an error response whose code is not
  empty and is neither \<open>authorization_pending\<close> nor \<open>slow_down\<close> ends the polling in that
  very turn, whatever replies would follow: the function returns the error whose message
  is the code, the description and the URI, separated by single spaces. For the code
  \<open>expired_token\<close> this error differs from the one returned when the deadline has passed.
\<close>

theorem other_error_code_ends_polling:
  assumes "pollAccessToken pre dc i e = (evs, None, v)"
    and "\<not> now w > e"
    and "postAccessToken (response w) = (None, Some er, None)"
    and "Error er \<noteq> ''''"
    and "Error er \<noteq> ''authorization_pending''"
    and "Error er \<noteq> ''slow_down''"
  shows "pollAccessToken (pre @ w # rest) dc i e =
           (evs @ [Sleep (interval v), Now (now w), accessTokenRequest dc],
            Some (None, Some (ErrorString (Error er @ '' '' @ ErrorDescription er @ '' '' @ ErrorUri er))),
            v)
       \<and> (Error er = ''expired_token'' \<longrightarrow>
            ErrorString (Error er @ '' '' @ ErrorDescription er @ '' '' @ ErrorUri er) \<noteq> expiredError)"
proof -
  from assms(1) have run: "pollLoop pre \<lparr>deviceCode = dc, interval = i, expiresAt = e\<rparr> = (evs, None, v)"
    by (simp add: pollAccessToken_def)
  from pollLoop_expiresAt [OF run] have same: "expiresAt v = e" "deviceCode v = dc" by simp_all
  with assms have "pollIteration w v =
     ([Sleep (interval v), Now (now w), accessTokenRequest dc], Some (None, Some (authorizationError er)), v)"
    using pollIteration_other_error [where w = w and v = v and a = None and er = er] by simp
  from pollLoop_return [OF run this]
  show ?thesis
    by (auto simp: pollAccessToken_def authorizationError_def expiredError_def)
qed

text \<open>C5 at the scenario \<open>slow_down\<close> once, then \<open>expired_token\<close>.\<close>

theorem other_error_code_ends_polling_witness:
  "pollAccessToken [replyTick 6000000000 slowDownBody] ''D'' 6000000000 900000000000
     = ([Sleep 6000000000, Now 6000000000, accessTokenRequest ''D''], None,
        \<lparr>deviceCode = ''D'', interval = 12000000000, expiresAt = 900000000000\<rparr>)
   \<and> \<not> now (replyTick 18000000000 expiredTokenBody) > 900000000000
   \<and> postAccessToken (response (replyTick 18000000000 expiredTokenBody))
       = (None, Some \<lparr>Error = ''expired_token'', ErrorDescription = ''The device code has expired.'',
                      ErrorUri = ''https://docs.github.com''\<rparr>, None)
   \<and> pollAccessToken ([replyTick 6000000000 slowDownBody] @ replyTick 18000000000 expiredTokenBody
                        # [replyTick 42000000000 tokenBody])
        ''D'' 6000000000 900000000000
       = ([Sleep 6000000000, Now 6000000000, accessTokenRequest ''D'',
           Sleep 12000000000, Now 18000000000, accessTokenRequest ''D''],
          Some (None, Some (ErrorString ''expired_token The device code has expired. https://docs.github.com'')),
          \<lparr>deviceCode = ''D'', interval = 12000000000, expiresAt = 900000000000\<rparr>)
   \<and> ErrorString ''expired_token The device code has expired. https://docs.github.com'' \<noteq> expiredError"
proof -
  let ?w = "replyTick 18000000000 expiredTokenBody"
  let ?er = "\<lparr>Error = ''expired_token'', ErrorDescription = ''The device code has expired.'',
              ErrorUri = ''https://docs.github.com''\<rparr>"
  have h1: "pollAccessToken [replyTick 6000000000 slowDownBody] ''D'' 6000000000 900000000000
     = ([Sleep 6000000000, Now 6000000000, accessTokenRequest ''D''], None,
        \<lparr>deviceCode = ''D'', interval = 12000000000, expiresAt = 900000000000\<rparr>)"
    by (simp add: eval_defs replyTick_def)
  have h2: "\<not> now ?w > 900000000000"
    by (simp add: replyTick_def)
  have h3: "postAccessToken (response ?w) = (None, Some ?er, None)"
    by (simp add: eval_defs replyTick_def)
  have h4: "Error ?er \<noteq> ''''" "Error ?er \<noteq> ''authorization_pending''" "Error ?er \<noteq> ''slow_down''"
    by simp_all
  from other_error_code_ends_polling [OF h1 h2 h3 h4, of "[replyTick 42000000000 tokenBody]"] h1 h2 h3
  show ?thesis
    by (simp add: replyTick_def)
qed



text \<open>
  C6. The empty JSON object decodes without error into both structs and leaves
  \<open>access_token\<close> and \<open>error\<close> empty. \<open>postAccessToken\<close> then returns three nils, and
  \<open>pollAccessToken\<close> returns a nil response together with a nil error; \<open>run\<close> goes on to
  read the token through the nil pointer. A body that is not JSON does end the polling
  with the error of the decoder.
\<close>

theorem malformed_body_returned_without_error:
  "postAccessToken (Inr (JSON (JObject []))) = (None, None, None)
   \<and> pollAccessToken [replyTick 6000000000 NotJSON] ''D'' (6 * Second) 900000000000
       = ([Sleep 6000000000, Now 6000000000, accessTokenRequest ''D''],
          Some (None, Some SyntaxError),
          \<lparr>deviceCode = ''D'', interval = 6000000000, expiresAt = 900000000000\<rparr>)
   \<and> pollAccessToken [replyTick 6000000000 (JSON (JObject []))] ''D'' (6 * Second) 900000000000
       = ([Sleep 6000000000, Now 6000000000, accessTokenRequest ''D''], Some (None, None),
          \<lparr>deviceCode = ''D'', interval = 6000000000, expiresAt = 900000000000\<rparr>)
   \<and> run emptyObjectWorld
       = ([Now 0, deviceCodeRequest,
           Print ''Open https://x/device in your browser and enter this code:'',
           Print ''ABCD-1234'',
           Sleep 6000000000, Now 6000000000, accessTokenRequest ''D''],
          Some NilPointerDereference)"
  by (simp add: run_defs eval_defs emptyObjectWorld_def)

section \<open>The interval\<close>

text \<open>
  C2. When every one of \<open>k\<close> replies is \<open>slow_down\<close>, all before the deadline, the \<open>j\<close>-th
  turn sleeps for the interval times \<open>2 ^ j\<close>, the loop is still running after the \<open>k\<close>
  replies, and the interval is then the initial one times \<open>2 ^ k\<close> in 64-bit arithmetic.
  Read as signed numbers, this is the exact product whenever the product is within
  \<open>int64\<close>.
\<close>

theorem slow_down_doubles_interval:
  assumes "\<forall>w\<in>set ss. \<not> now w > e \<and> isSlowDown (response w)"
  shows "pollAccessToken ss dc i e =
           (concat (map (\<lambda>(j, w). [Sleep (i * 2 ^ j), Now (now w), accessTokenRequest dc]) (enumerate 0 ss)),
            None,
            \<lparr>deviceCode = dc, interval = i * 2 ^ length ss, expiresAt = e\<rparr>)
       \<and> (- (2 ^ 63) \<le> sint i * 2 ^ length ss \<and> sint i * 2 ^ length ss < 2 ^ 63 \<longrightarrow>
            sint (i * 2 ^ length ss) = sint i * 2 ^ length ss)"
  using pollLoop_slow_down [OF assms, of dc i 0] sint_double_pow [of i "length ss"]
  by (simp add: pollAccessToken_def)

text \<open>C2 at three \<open>slow_down\<close> replies and an interval of 6 seconds: 6, 12, 24, then 48.\<close>

theorem slow_down_doubles_interval_witness:
  "\<not> now (replyTick 6000000000 slowDownBody) > 900000000000
   \<and> isSlowDown (response (replyTick 6000000000 slowDownBody))
   \<and> \<not> now (replyTick 18000000000 slowDownBody) > 900000000000
   \<and> isSlowDown (response (replyTick 18000000000 slowDownBody))
   \<and> \<not> now (replyTick 42000000000 slowDownBody) > 900000000000
   \<and> isSlowDown (response (replyTick 42000000000 slowDownBody))
   \<and> pollAccessToken [replyTick 6000000000 slowDownBody, replyTick 18000000000 slowDownBody,
                       replyTick 42000000000 slowDownBody] ''D'' 6000000000 900000000000
       = ([Sleep 6000000000, Now 6000000000, accessTokenRequest ''D'',
           Sleep 12000000000, Now 18000000000, accessTokenRequest ''D'',
           Sleep 24000000000, Now 42000000000, accessTokenRequest ''D''],
          None,
          \<lparr>deviceCode = ''D'', interval = 48000000000, expiresAt = 900000000000\<rparr>)
   \<and> sint (6000000000 * 2 ^ 3 :: Duration) = 6000000000 * 2 ^ 3"
proof -
  let ?ss = "[replyTick 6000000000 slowDownBody, replyTick 18000000000 slowDownBody,
              replyTick 42000000000 slowDownBody]"
  have h: "\<forall>w\<in>set ?ss. \<not> now w > 900000000000 \<and> isSlowDown (response w)"
    by (simp add: eval_defs class_defs replyTick_def)
  from slow_down_doubles_interval [OF h, of "''D''" 6000000000] h
  show ?thesis
    by (simp add: replyTick_def enumerate_eq_zip)
qed

text \<open>
  C2 without the bound: an interval of \<open>2 ^ 62\<close> nanoseconds doubled once is
  \<open>- 2 ^ 63\<close> nanoseconds, not \<open>2 ^ 63\<close>.
\<close>

theorem slow_down_doubles_interval_counterexample:
  "pollAccessToken [replyTick 4611686018427387904 slowDownBody] ''D'' 4611686018427387904 9223372036854775807
     = ([Sleep 4611686018427387904, Now 4611686018427387904, accessTokenRequest ''D''], None,
        \<lparr>deviceCode = ''D'', interval = 9223372036854775808, expiresAt = 9223372036854775807\<rparr>)
   \<and> sint (4611686018427387904 :: Duration) = 4611686018427387904
   \<and> sint (9223372036854775808 :: Duration) = - 9223372036854775808
   \<and> sint (9223372036854775808 :: Duration) \<noteq> sint (4611686018427387904 :: Duration) * 2 ^ 1"
  by (simp add: eval_defs replyTick_def)




section \<open>The device-code request and the call of the poller\<close>

text \<open>
  C7. When the device-code request succeeds, and the interval plus one and the lifetime
  of the grant, both in nanoseconds, are within \<open>int64\<close>: \<open>run\<close> reads the clock before
  it sends the device-code request, prints the prompt, and then polls with the interval
  of the grant plus one second and with the deadline at the time read plus the lifetime
  of the grant. What \<open>run\<close> returns is what the poller returned.
\<close>

theorem run_polls_from_request_time:
  assumes "postDeviceCode (deviceCodeReply w) = (Some g, None)"
    and "- (2 ^ 63) \<le> (sint (Interval g) + 1) * 1000000000"
    and "(sint (Interval g) + 1) * 1000000000 < 2 ^ 63"
    and "- (2 ^ 63) \<le> sint (ExpiresIn g) * 1000000000"
    and "sint (ExpiresIn g) * 1000000000 < 2 ^ 63"
  shows "sint ((Interval g + 1) * Second) = (sint (Interval g) + 1) * 1000000000
       \<and> (\<exists>evs'. fst (run w) =
            Now (startTime w) # deviceCodeRequest
              # Print (''Open '' @ VerificationURI g @ '' in your browser and enter this code:'')
              # Print (UserCode g)
              # fst (pollAccessToken (ticks w) (DeviceCode g) ((Interval g + 1) * Second)
                     (startTime w + sint (ExpiresIn g) * 1000000000))
              @ evs')
       \<and> snd (run w) =
           (case fst (snd (pollAccessToken (ticks w) (DeviceCode g) ((Interval g + 1) * Second)
                             (startTime w + sint (ExpiresIn g) * 1000000000))) of
              None \<Rightarrow> None
            | Some (_, Some err) \<Rightarrow> Some (Returned (Some err))
            | Some (None, None) \<Rightarrow> Some NilPointerDereference
            | Some (Some acResp, None) \<Rightarrow> Some (Returned None))"
proof -
  have "- (2 ^ 63) \<le> sint (Interval g) + 1" "sint (Interval g) + 1 < 2 ^ 63"
    using assms(2,3) by simp_all
  then have plus: "sint (Interval g + 1) = sint (Interval g) + 1"
    using sint_plus_exact [of "Interval g" 1] by simp
  with assms(2,3) have i: "sint ((Interval g + 1) * Second) = (sint (Interval g) + 1) * 1000000000"
    using sint_times_exact [of "Interval g + 1" 1000000000] by (simp add: Second_def)
  from assms(4,5) have e: "sint (ExpiresIn g * Second) = sint (ExpiresIn g) * 1000000000"
    using sint_times_exact [of "ExpiresIn g" 1000000000] by (simp add: Second_def)
  obtain evs r v where poll:
    "pollAccessToken (ticks w) (DeviceCode g) ((Interval g + 1) * Second)
       (startTime w + sint (ExpiresIn g) * 1000000000) = (evs, r, v)"
    by (cases "pollAccessToken (ticks w) (DeviceCode g) ((Interval g + 1) * Second)
       (startTime w + sint (ExpiresIn g) * 1000000000)") auto
  from assms(1) e poll have "(\<exists>evs'. fst (run w) =
            Now (startTime w) # deviceCodeRequest
              # Print (''Open '' @ VerificationURI g @ '' in your browser and enter this code:'')
              # Print (UserCode g) # evs @ evs')
       \<and> snd (run w) =
           (case r of
              None \<Rightarrow> None
            | Some (_, Some err) \<Rightarrow> Some (Returned (Some err))
            | Some (None, None) \<Rightarrow> Some NilPointerDereference
            | Some (Some acResp, None) \<Rightarrow> Some (Returned None))"
    by (auto simp: run_def pollArguments_def split: option.splits)
  with i poll show ?thesis by simp
qed

text \<open>C7 at the end-to-end scenario.\<close>

theorem run_polls_from_request_time_witness:
  "postDeviceCode (deviceCodeReply scenarioWorld)
     = (Some \<lparr>DeviceCode = ''D'', ExpiresIn = 900, Interval = 5, UserCode = ''ABCD-1234'',
              VerificationURI = ''https://x/device''\<rparr>, None)
   \<and> sint ((5 + 1) * Second :: Duration) = (5 + 1) * 1000000000
   \<and> fst (run scenarioWorld)
     = Now 0 # deviceCodeRequest
         # Print ''Open https://x/device in your browser and enter this code:''
         # Print ''ABCD-1234''
         # fst (pollAccessToken (ticks scenarioWorld) ''D'' ((5 + 1) * Second) (0 + 900 * 1000000000))
         @ [Print ''access token: tok123'']
   \<and> snd (run scenarioWorld) = Some (Returned None)"
proof -
  let ?g = "\<lparr>DeviceCode = ''D'', ExpiresIn = 900, Interval = 5, UserCode = ''ABCD-1234'',
             VerificationURI = ''https://x/device''\<rparr>"
  have h1: "postDeviceCode (deviceCodeReply scenarioWorld) = (Some ?g, None)"
    by (simp add: run_defs Unmarshal_def foldName_tags)
  have h2: "- (2 ^ 63) \<le> (sint (Interval ?g) + 1) * 1000000000"
    "(sint (Interval ?g) + 1) * 1000000000 < 2 ^ 63"
    "- (2 ^ 63) \<le> sint (ExpiresIn ?g) * 1000000000"
    "sint (ExpiresIn ?g) * 1000000000 < 2 ^ 63"
    by simp_all
  note main = run_polls_from_request_time [OF h1 h2]
  from main have a: "sint ((Interval ?g + 1) * Second) = (sint (Interval ?g) + 1) * 1000000000"
    by (rule conjunct1)
  have b: "fst (run scenarioWorld)
     = Now 0 # deviceCodeRequest
         # Print ''Open https://x/device in your browser and enter this code:''
         # Print ''ABCD-1234''
         # fst (pollAccessToken (ticks scenarioWorld) ''D'' ((5 + 1) * Second) (0 + 900 * 1000000000))
         @ [Print ''access token: tok123'']"
    by (simp add: run_defs eval_defs)
  have poll: "fst (snd (pollAccessToken (ticks scenarioWorld) (DeviceCode ?g) ((Interval ?g + 1) * Second)
                             (startTime scenarioWorld + sint (ExpiresIn ?g) * 1000000000)))
     = Some (Some \<lparr>AccessToken = ''tok123'', TokenType = ''bearer'', Scope = ''''\<rparr>, None)"
    by (simp add: run_defs eval_defs)
  from main have "snd (run scenarioWorld) =
           (case fst (snd (pollAccessToken (ticks scenarioWorld) (DeviceCode ?g) ((Interval ?g + 1) * Second)
                             (startTime scenarioWorld + sint (ExpiresIn ?g) * 1000000000))) of
              None \<Rightarrow> None
            | Some (_, Some err) \<Rightarrow> Some (Returned (Some err))
            | Some (None, None) \<Rightarrow> Some NilPointerDereference
            | Some (Some acResp, None) \<Rightarrow> Some (Returned None))"
    by (rule conjunct2 [THEN conjunct2])
  then have c: "snd (run scenarioWorld) = Some (Returned None)"
    unfolding poll by simp
  from h1 a b c show ?thesis
    by simp
qed

text \<open>
  C7 without the bounds: with a lifetime of 9223372037 seconds the product with
  \<open>time.Second\<close> wraps around: the
  deadline lies before the time read, and the first turn of the poller, 6 seconds later,
  already returns the expiry error.
\<close>

theorem run_polls_from_request_time_counterexample:
  "postDeviceCode (deviceCodeReply longLivedGrantWorld)
     = (Some \<lparr>DeviceCode = ''D'', ExpiresIn = 9223372037, Interval = 5, UserCode = ''ABCD-1234'',
              VerificationURI = ''https://x/device''\<rparr>, None)
   \<and> pollArguments (startTime longLivedGrantWorld)
        \<lparr>DeviceCode = ''D'', ExpiresIn = 9223372037, Interval = 5, UserCode = ''ABCD-1234'',
         VerificationURI = ''https://x/device''\<rparr>
     = (''D'', 6000000000, - 9223372036709551616)
   \<and> startTime longLivedGrantWorld + 9223372037 * 1000000000 \<noteq> - 9223372036709551616
   \<and> run longLivedGrantWorld
     = ([Now 0, deviceCodeRequest,
         Print ''Open https://x/device in your browser and enter this code:'',
         Print ''ABCD-1234'', Sleep 6000000000, Now 6000000000],
        Some (Returned (Some expiredError)))"
  by (simp add: run_defs eval_defs)




end
